theory Spec2Isabelle
  imports Main "HOL-Library.Word"
begin

section \<open>Text, bytes and the platform's text encoding\<close>

text \<open>
  The program under study is the script \<^verbatim>\<open>Random Projects/goal.py\<close>. It consists of
  calls to Python built-ins only, so the embedding has two layers: the built-ins the
  script calls (\<^verbatim>\<open>print\<close>, \<^verbatim>\<open>input\<close>, \<^verbatim>\<open>open\<close>, \<^verbatim>\<open>write\<close>,
  \<^verbatim>\<open>read\<close>, the \<^verbatim>\<open>with\<close> statement), modelled as the Python documentation
  describes them, and the script itself, statement by statement.

  What is fixed about the platform:
  \<^item> CPython 3 on a POSIX system: \<^verbatim>\<open>os.linesep\<close> is \<^verbatim>\<open>"\n"\<close>, and standard input is
    split into lines at \<^verbatim>\<open>"\n"\<close> only;
  \<^item> the locale encoding, which \<^verbatim>\<open>open\<close> uses when no encoding is given, is UTF-8
    with the strict error handler;
  \<^item> standard input is seen as the text it decodes to; it can contain any code point,
    lone surrogates included (they arise from undecodable bytes when the stream uses the
    \<^verbatim>\<open>surrogateescape\<close> error handler), and standard output and standard error accept
    every text the script prints;
  \<^item> the standard streams are either attached to a terminal or not (pipes, files); the
    script does not import \<^verbatim>\<open>readline\<close>;
  \<^item> no other process changes the working directory while the script runs.

  A Python \<^verbatim>\<open>str\<close> is a sequence of code points; a file on disk is a sequence of bytes.
\<close>

type_synonym codepoint = nat
type_synonym pystr = "codepoint list"
type_synonym byte = "8 word"

definition str :: "string \<Rightarrow> pystr" where
  \<comment> \<open>an ASCII string literal of the script\<close>
  "str s = map of_char s"

definition LF :: codepoint where
  "LF = 10"

definition CR :: codepoint where
  "CR = 13"

definition mul_str :: "pystr \<Rightarrow> nat \<Rightarrow> pystr" where
  \<comment> \<open>Python's \<^verbatim>\<open>s * n\<close> on strings\<close>
  "mul_str s n = concat (replicate n s)"

definition is_surrogate :: "codepoint \<Rightarrow> bool" where
  "is_surrogate c \<longleftrightarrow> 0xD800 \<le> c \<and> c \<le> 0xDFFF"


definition byte_of_nat :: "nat \<Rightarrow> byte" where
  \<comment> \<open>\<^verbatim>\<open>bytes((n,))\<close>\<close>
  "byte_of_nat n = of_nat n"

definition utf8_encode_char :: "codepoint \<Rightarrow> byte list option" where
  "utf8_encode_char c =
     (if c < 0x80 then Some [byte_of_nat c]
      else if c < 0x800 then Some [byte_of_nat (0xC0 + c div 64), byte_of_nat (0x80 + c mod 64)]
      else if is_surrogate c then None
      else if c < 0x10000 then
        Some [byte_of_nat (0xE0 + c div 4096), byte_of_nat (0x80 + c div 64 mod 64),
              byte_of_nat (0x80 + c mod 64)]
      else if c < 0x110000 then
        Some [byte_of_nat (0xF0 + c div 262144), byte_of_nat (0x80 + c div 4096 mod 64),
              byte_of_nat (0x80 + c div 64 mod 64), byte_of_nat (0x80 + c mod 64)]
      else None)"

fun utf8_encode :: "pystr \<Rightarrow> byte list option" where
  \<comment> \<open>\<^verbatim>\<open>s.encode("utf-8")\<close> with the strict error handler: \<open>None\<close> is UnicodeEncodeError\<close>
  "utf8_encode [] = Some []"
| "utf8_encode (c # cs) =
     (case utf8_encode_char c of
        None \<Rightarrow> None
      | Some bs \<Rightarrow> (case utf8_encode cs of None \<Rightarrow> None | Some bs' \<Rightarrow> Some (bs @ bs')))"

definition is_cont :: "byte \<Rightarrow> bool" where
  \<comment> \<open>a continuation byte \<^verbatim>\<open>10xxxxxx\<close>\<close>
  "is_cont b \<longleftrightarrow> 0x80 \<le> unat b \<and> unat b < 0xC0"

fun utf8_decode :: "byte list \<Rightarrow> pystr option" where
  \<comment> \<open>\<^verbatim>\<open>bs.decode("utf-8")\<close> with the strict error handler: \<open>None\<close> is UnicodeDecodeError
      (truncated sequences, stray continuation bytes, overlong forms, surrogates and
      values above U+10FFFF are all rejected)\<close>
  "utf8_decode [] = Some []"
| "utf8_decode (b # bs) =
     (let n = unat b in
      if n < 0x80 then map_option ((#) n) (utf8_decode bs)
      else if 0xC2 \<le> n \<and> n < 0xE0 then
        (case bs of
           b1 # r \<Rightarrow>
             if is_cont b1
             then map_option ((#) ((n - 0xC0) * 64 + (unat b1 - 0x80))) (utf8_decode r)
             else None
         | _ \<Rightarrow> None)
      else if 0xE0 \<le> n \<and> n < 0xF0 then
        (case bs of
           b1 # b2 # r \<Rightarrow>
             (let c = (n - 0xE0) * 4096 + (unat b1 - 0x80) * 64 + (unat b2 - 0x80) in
              if is_cont b1 \<and> is_cont b2 \<and> 0x800 \<le> c \<and> \<not> is_surrogate c
              then map_option ((#) c) (utf8_decode r)
              else None)
         | _ \<Rightarrow> None)
      else if 0xF0 \<le> n \<and> n < 0xF5 then
        (case bs of
           b1 # b2 # b3 # r \<Rightarrow>
             (let c = (n - 0xF0) * 262144 + (unat b1 - 0x80) * 4096
                      + (unat b2 - 0x80) * 64 + (unat b3 - 0x80) in
              if is_cont b1 \<and> is_cont b2 \<and> is_cont b3 \<and> 0x10000 \<le> c \<and> c < 0x110000
              then map_option ((#) c) (utf8_decode r)
              else None)
         | _ \<Rightarrow> None)
      else None)"

definition os_linesep :: pystr where
  \<comment> \<open>\<^verbatim>\<open>os.linesep\<close> on POSIX\<close>
  "os_linesep = [LF]"

definition translate_on_write :: "pystr \<Rightarrow> pystr" where
  \<comment> \<open>text mode, \<^verbatim>\<open>newline=None\<close>, writing: every \<^verbatim>\<open>"\n"\<close> becomes \<^verbatim>\<open>os.linesep\<close>\<close>
  "translate_on_write s = concat (map (\<lambda>c. if c = LF then os_linesep else [c]) s)"

fun universal_newlines :: "pystr \<Rightarrow> pystr" where
  \<comment> \<open>text mode, \<^verbatim>\<open>newline=None\<close>, reading: \<^verbatim>\<open>"\r\n"\<close> and \<^verbatim>\<open>"\r"\<close> become
      \<^verbatim>\<open>"\n"\<close> before the text reaches the caller\<close>
  "universal_newlines [] = []"
| "universal_newlines [c] = (if c = CR then [LF] else [c])"
| "universal_newlines (c # d # cs) =
     (if c = CR \<and> d = LF then LF # universal_newlines cs
      else if c = CR then LF # universal_newlines (d # cs)
      else c # universal_newlines (d # cs))"

section \<open>The world the script runs in\<close>

text \<open>
  The exceptions the built-ins below can raise. An uncaught exception ends the run; it is
  the \<open>Inl\<close> result of a computation.
\<close>

datatype py_error =
    EOFError
  | FileNotFoundError
  | PermissionError
  | UnicodeEncodeError
  | UnicodeDecodeError
  | UnsupportedOperation
  | ValueError

datatype mode = R | W

record file_entry =
  data :: "byte list"
  may_read :: bool
  may_write :: bool

record handle =
  h_name :: string
  h_mode :: mode

text \<open>
  The world: what is left of standard input, what has been written to standard output and
  to standard error, whether standard input and standard output are both attached to a
  terminal, the files of the current working directory with their bytes and access rights,
  whether the process may create files there, and the file objects that are currently
  open.
\<close>

record world =
  stdin :: pystr
  stdout :: pystr
  stderr :: pystr
  tty :: bool
  files :: "string \<rightharpoonup> file_entry"
  cwd_writable :: bool
  handles :: "handle list"

type_synonym 'a io = "world \<Rightarrow> (py_error + 'a) \<times> world"

definition return_io :: "'a \<Rightarrow> 'a io" where
  "return_io x w = (Inr x, w)"

definition bind_io :: "'a io \<Rightarrow> ('a \<Rightarrow> 'b io) \<Rightarrow> 'b io" where
  \<comment> \<open>one statement after another: an exception skips everything that follows\<close>
  "bind_io m f w = (case m w of (Inl e, w') \<Rightarrow> (Inl e, w') | (Inr x, w') \<Rightarrow> f x w')"

section \<open>The built-ins the script calls\<close>

definition print_py :: "pystr \<Rightarrow> unit io" where
  \<comment> \<open>\<^verbatim>\<open>print(s)\<close>: the text and a newline go to standard output\<close>
  "print_py s w = (Inr (), w\<lparr>stdout := stdout w @ s @ [LF]\<rparr>)"

definition readline :: "pystr \<Rightarrow> pystr \<times> pystr" where
  \<comment> \<open>\<^verbatim>\<open>sys.stdin.readline()\<close>: the next line with its \<^verbatim>\<open>"\n"\<close>, or what is left
      before the end of the input; the second component is the rest of the input\<close>
  "readline s =
     (let l = takeWhile (\<lambda>c. c \<noteq> LF) s
      in if length l < length s then (l @ [LF], drop (Suc (length l)) s) else (l, []))"

definition input_py :: "pystr \<Rightarrow> pystr io" where
  \<comment> \<open>\<^verbatim>\<open>input(prompt)\<close>: the prompt is written without a newline, to standard output
      when the streams are not a terminal, and to standard error when standard input and
      standard output are both a terminal (the interpreter then reads the line with its
      own line reader, which prompts on standard error unless \<^verbatim>\<open>readline\<close> is loaded);
      a line is read, EOFError is raised when nothing at all could be read, and a trailing
      \<^verbatim>\<open>"\n"\<close> is stripped from the line\<close>
  "input_py prompt w =
     (let w1 = (if tty w then w\<lparr>stderr := stderr w @ prompt\<rparr>
                else w\<lparr>stdout := stdout w @ prompt\<rparr>);
          (line, rest) = readline (stdin w1)
      in if line = [] then (Inl EOFError, w1)
         else (Inr (if last line = LF then butlast line else line), w1\<lparr>stdin := rest\<rparr>))"

definition open_py :: "string \<Rightarrow> mode \<Rightarrow> handle io" where
  \<comment> \<open>\<^verbatim>\<open>open(name, "w")\<close> creates the file or truncates it to zero bytes;
      \<^verbatim>\<open>open(name, "r")\<close> needs an existing, readable file\<close>
  "open_py name m w =
     (let h = \<lparr>h_name = name, h_mode = m\<rparr> in
      case m of
        W \<Rightarrow>
          (case files w name of
             None \<Rightarrow>
               if cwd_writable w
               then (Inr h, w\<lparr>files := (files w)(name \<mapsto>
                                \<lparr>data = [], may_read = True, may_write = True\<rparr>),
                              handles := h # handles w\<rparr>)
               else (Inl PermissionError, w)
           | Some f \<Rightarrow>
               if may_write f
               then (Inr h, w\<lparr>files := (files w)(name \<mapsto> f\<lparr>data := []\<rparr>),
                              handles := h # handles w\<rparr>)
               else (Inl PermissionError, w))
      | R \<Rightarrow>
          (case files w name of
             None \<Rightarrow> (Inl FileNotFoundError, w)
           | Some f \<Rightarrow>
               if may_read f then (Inr h, w\<lparr>handles := h # handles w\<rparr>)
               else (Inl PermissionError, w)))"

definition close_py :: "handle \<Rightarrow> world \<Rightarrow> world" where
  "close_py h w = w\<lparr>handles := remove1 h (handles w)\<rparr>"

definition write_py :: "handle \<Rightarrow> pystr \<Rightarrow> nat io" where
  \<comment> \<open>\<^verbatim>\<open>file.write(s)\<close> in text mode: newline translation, then the UTF-8 encoding of the
      whole string is appended to the file (the handle was positioned at the end by the
      truncation, and the script writes once); returns the number of characters\<close>
  "write_py h s w =
     (if h \<notin> set (handles w) then (Inl ValueError, w)
      else if h_mode h \<noteq> W then (Inl UnsupportedOperation, w)
      else case utf8_encode (translate_on_write s) of
             None \<Rightarrow> (Inl UnicodeEncodeError, w)
           | Some bs \<Rightarrow>
               (case files w (h_name h) of
                  None \<Rightarrow> (Inr (length s), w)
                | Some f \<Rightarrow>
                    (Inr (length s),
                     w\<lparr>files := (files w)(h_name h \<mapsto> f\<lparr>data := data f @ bs\<rparr>)\<rparr>)))"

definition read_py :: "handle \<Rightarrow> pystr io" where
  \<comment> \<open>\<^verbatim>\<open>file.read()\<close> in text mode on a freshly opened handle: all bytes of the file are
      decoded as UTF-8, then universal newlines are applied\<close>
  "read_py h w =
     (if h \<notin> set (handles w) then (Inl ValueError, w)
      else if h_mode h \<noteq> R then (Inl UnsupportedOperation, w)
      else case files w (h_name h) of
             None \<Rightarrow> (Inr [], w)
           | Some f \<Rightarrow>
               (case utf8_decode (data f) of
                  None \<Rightarrow> (Inl UnicodeDecodeError, w)
                | Some s \<Rightarrow> (Inr (universal_newlines s), w)))"

definition with_open :: "string \<Rightarrow> mode \<Rightarrow> (handle \<Rightarrow> 'a io) \<Rightarrow> 'a io" where
  \<comment> \<open>\<^verbatim>\<open>with open(name, mode) as file: body\<close>: when the file could be opened, the body
      runs and the handle is closed afterwards, whether the body returned or raised\<close>
  "with_open name m body w =
     (case open_py name m w of
        (Inl e, w') \<Rightarrow> (Inl e, w')
      | (Inr h, w') \<Rightarrow> (case body h w' of (r, w'') \<Rightarrow> (r, close_py h w'')))"

section \<open>The script\<close>

text \<open>
  \<^verbatim>\<open>
  print("--- 2026 CAREER LOCKER ---")
  my_goal = input("What is your ultimate goal for 2026? > ")

  filename = "my_goal.txt"
  with open(filename, "w") as file:
      file.write(my_goal)

  print("\n...Saving to disk...")
  print("-" * 30)

  with open(filename, "r") as file:
      saved_content = file.read()
      print(f"<U+2705> CONFIRMED. Saved Goal: {saved_content}")
      print("-" * 30)
  \<close>
  The script's variables are module globals; a run that completes returns the two that
  hold text, so that properties can speak about them.
\<close>

record globals =
  my_goal :: pystr
  saved_content :: pystr

definition filename :: string where
  "filename = ''my_goal.txt''"

definition persist :: "pystr \<Rightarrow> nat io" where
  \<comment> \<open>the first \<^verbatim>\<open>with\<close> block\<close>
  "persist goal = with_open filename W (\<lambda>file. write_py file goal)"

definition verify :: "pystr io" where
  \<comment> \<open>the second \<^verbatim>\<open>with\<close> block; its value is \<^verbatim>\<open>saved_content\<close>\<close>
  "verify =
     with_open filename R (\<lambda>file.
       bind_io (read_py file) (\<lambda>saved.
       bind_io (print_py (0x2705 # str '' CONFIRMED. Saved Goal: '' @ saved)) (\<lambda>_.
       bind_io (print_py (mul_str (str ''-'') 30)) (\<lambda>_.
       return_io saved))))"

definition main :: "globals io" where
  "main =
     bind_io (print_py (str ''--- 2026 CAREER LOCKER ---'')) (\<lambda>_.
     bind_io (input_py (str ''What is your ultimate goal for 2026? > '')) (\<lambda>goal.
     bind_io (persist goal) (\<lambda>_.
     bind_io (print_py (LF # str ''...Saving to disk...'')) (\<lambda>_.
     bind_io (print_py (mul_str (str ''-'') 30)) (\<lambda>_.
     bind_io verify (\<lambda>saved.
     return_io \<lparr>my_goal = goal, saved_content = saved\<rparr>))))))"

section \<open>Vocabulary for the properties\<close>

definition first_line :: "pystr \<Rightarrow> pystr" where
  \<comment> \<open>the input up to, and without, its first newline\<close>
  "first_line s = takeWhile (\<lambda>c. c \<noteq> LF) s"

definition can_write :: "world \<Rightarrow> bool" where
  \<comment> \<open>the access rights let \<^verbatim>\<open>open(filename, "w")\<close> through\<close>
  "can_write w = (case files w filename of None \<Rightarrow> cwd_writable w | Some f \<Rightarrow> may_write f)"

definition can_read_back :: "world \<Rightarrow> bool" where
  \<comment> \<open>the access rights let \<^verbatim>\<open>open(filename, "r")\<close> through once the file exists;
      a file the script creates is readable\<close>
  "can_read_back w = (case files w filename of None \<Rightarrow> True | Some f \<Rightarrow> may_read f)"

definition goal_bytes :: "world \<Rightarrow> byte list option" where
  \<comment> \<open>the bytes of \<^verbatim>\<open>my_goal.txt\<close>, if the file exists\<close>
  "goal_bytes w = map_option data (files w filename)"

definition printed :: "world \<Rightarrow> world \<Rightarrow> pystr" where
  \<comment> \<open>what was written to standard output between two worlds\<close>
  "printed w w' = drop (length (stdout w)) (stdout w')"

definition truncated :: "world \<Rightarrow> file_entry" where
  \<comment> \<open>the directory entry of \<^verbatim>\<open>my_goal.txt\<close> right after \<^verbatim>\<open>open(filename, "w")\<close>\<close>
  "truncated w =
     (case files w filename of
        None \<Rightarrow> \<lparr>data = [], may_read = True, may_write = True\<rparr>
      | Some f \<Rightarrow> f\<lparr>data := []\<rparr>)"


definition prompt_text :: pystr where
  "prompt_text = str ''What is your ultimate goal for 2026? > ''"

definition banner :: "bool \<Rightarrow> pystr" where
  \<comment> \<open>standard output up to the point where the script waits for input; the argument
      says whether the streams are a terminal, and then the prompt is not part of it\<close>
  "banner t = str ''--- 2026 CAREER LOCKER ---'' @ [LF] @ (if t then [] else prompt_text)"

definition greeted :: "world \<Rightarrow> world" where
  \<comment> \<open>the world once header and prompt have been written\<close>
  "greeted w = w\<lparr>stdout := stdout w @ banner (tty w),
                  stderr := stderr w @ (if tty w then prompt_text else [])\<rparr>"

definition progress :: pystr where
  \<comment> \<open>the output of the two \<^verbatim>\<open>print\<close> calls between the \<^verbatim>\<open>with\<close> blocks\<close>
  "progress = (LF # str ''...Saving to disk...'') @ [LF] @ mul_str (str ''-'') 30 @ [LF]"

definition report :: "pystr \<Rightarrow> pystr" where
  \<comment> \<open>the output of the two \<^verbatim>\<open>print\<close> calls inside the second \<^verbatim>\<open>with\<close> block\<close>
  "report saved = (0x2705 # str '' CONFIRMED. Saved Goal: '' @ saved) @ [LF]
                    @ mul_str (str ''-'') 30 @ [LF]"

definition prompted :: "world \<Rightarrow> world" where
  \<comment> \<open>the world once \<^verbatim>\<open>input\<close> has returned: banner printed, one line consumed\<close>
  "prompted w = (greeted w)\<lparr>stdin := drop (Suc (length (first_line (stdin w)))) (stdin w)\<rparr>"

definition stored :: "world \<Rightarrow> byte list \<Rightarrow> world" where
  \<comment> \<open>the world once the first \<^verbatim>\<open>with\<close> block has left \<open>bs\<close> in the file\<close>
  "stored w bs =
     (prompted w)\<lparr>files := (files w)(filename \<mapsto> (truncated w)\<lparr>data := bs\<rparr>)\<rparr>"

text \<open>Three families of concrete worlds, for examples.\<close>

definition fresh_world :: "pystr \<Rightarrow> world" where
  \<comment> \<open>an empty, writable directory and the given standard input, piped in\<close>
  "fresh_world inp =
     \<lparr>stdin = inp, stdout = [], stderr = [], tty = False, files = Map.empty,
      cwd_writable = True, handles = []\<rparr>"

definition terminal_world :: "pystr \<Rightarrow> world" where
  \<comment> \<open>the same, with the input typed at a terminal\<close>
  "terminal_world inp = (fresh_world inp)\<lparr>tty := True\<rparr>"

definition world_with :: "pystr \<Rightarrow> file_entry \<Rightarrow> world" where
  \<comment> \<open>a read-only directory that already holds \<^verbatim>\<open>my_goal.txt\<close>; input piped in\<close>
  "world_with inp f =
     \<lparr>stdin = inp, stdout = [], stderr = [], tty = False, files = [filename \<mapsto> f],
      cwd_writable = False, handles = []\<rparr>"

definition old_file :: file_entry where
  "old_file = \<lparr>data = [79, 108, 100, 32, 103, 111, 97, 108, 10],
               may_read = True, may_write = True\<rparr>"






section \<open>UTF-8: decoding undoes encoding\<close>

lemma unat_byte: "n < 256 \<Longrightarrow> unat (byte_of_nat n) = n"
  by (simp add: byte_of_nat_def unat_of_nat)

lemma utf8_decode_1:
  "unat b0 < 128 \<Longrightarrow> utf8_decode (b0 # rest) = map_option ((#) (unat b0)) (utf8_decode rest)"
  by simp

lemma utf8_decode_2:
  assumes "unat b0 = 192 + x" "2 \<le> x" "x < 32" "unat b1 = 128 + y" "y < 64"
  shows "utf8_decode (b0 # b1 # rest) = map_option ((#) (x * 64 + y)) (utf8_decode rest)"
  using assms by (simp add: is_cont_def)

lemma utf8_decode_3:
  assumes "unat b0 = 224 + x" "x < 16" "unat b1 = 128 + y" "y < 64" "unat b2 = 128 + z" "z < 64"
    and "2048 \<le> x * 4096 + y * 64 + z" "\<not> is_surrogate (x * 4096 + y * 64 + z)"
  shows "utf8_decode (b0 # b1 # b2 # rest)
         = map_option ((#) (x * 4096 + y * 64 + z)) (utf8_decode rest)"
  using assms by (simp add: is_cont_def)

lemma utf8_decode_4:
  assumes "unat b0 = 240 + x" "x < 5" "unat b1 = 128 + y" "y < 64" "unat b2 = 128 + z" "z < 64"
    and "unat b3 = 128 + u" "u < 64"
    and "65536 \<le> x * 262144 + y * 4096 + z * 64 + u" "x * 262144 + y * 4096 + z * 64 + u < 1114112"
  shows "utf8_decode (b0 # b1 # b2 # b3 # rest)
         = map_option ((#) (x * 262144 + y * 4096 + z * 64 + u)) (utf8_decode rest)"
  using assms by (simp add: is_cont_def)

lemma split3: "(c::nat) div 4096 * 4096 + c div 64 mod 64 * 64 + c mod 64 = c"
  using mod_mult2_eq [of c 64 64] div_mult_mod_eq [of c 4096] by simp

lemma split4:
  "(c::nat) div 262144 * 262144 + c div 4096 mod 64 * 4096 + c div 64 mod 64 * 64 + c mod 64 = c"
  using mod_mult2_eq [of c 64 64] mod_mult2_eq [of c 4096 64] div_mult_mod_eq [of c 262144]
  by simp

lemma utf8_decode_encode_char:
  assumes "utf8_encode_char c = Some bs"
  shows "utf8_decode (bs @ rest) = map_option ((#) c) (utf8_decode rest)"
proof -
  consider (one) "c < 128" | (two) "128 \<le> c" "c < 2048"
    | (three) "2048 \<le> c" "c < 65536" "\<not> is_surrogate c"
    | (four) "65536 \<le> c" "c < 1114112" "\<not> is_surrogate c"
    | (bad) "is_surrogate c \<or> 1114112 \<le> c" "2048 \<le> c"
    unfolding is_surrogate_def by linarith
  then show ?thesis
  proof cases
    case one
    then have bs: "bs = [byte_of_nat c]"
      using assms by (simp add: utf8_encode_char_def)
    have "unat (byte_of_nat c) = c" using one by (intro unat_byte) simp
    then show ?thesis using one utf8_decode_1 [of "byte_of_nat c" rest] by (simp add: bs)
  next
    case two
    then have bs: "bs = [byte_of_nat (192 + c div 64), byte_of_nat (128 + c mod 64)]"
      using assms by (simp add: utf8_encode_char_def)
    have a: "unat (byte_of_nat (192 + c div 64)) = 192 + c div 64"
      using two by (intro unat_byte) simp
    have b: "unat (byte_of_nat (128 + c mod 64)) = 128 + c mod 64"
      by (intro unat_byte) simp
    have "utf8_decode (byte_of_nat (192 + c div 64) # byte_of_nat (128 + c mod 64) # rest)
          = map_option ((#) (c div 64 * 64 + c mod 64)) (utf8_decode rest)"
      using two by (intro utf8_decode_2 a b) simp_all
    then show ?thesis by (simp add: bs)
  next
    case three
    then have bs: "bs = [byte_of_nat (224 + c div 4096), byte_of_nat (128 + c div 64 mod 64),
                         byte_of_nat (128 + c mod 64)]"
      using assms by (simp add: utf8_encode_char_def)
    have a: "unat (byte_of_nat (224 + c div 4096)) = 224 + c div 4096"
      using three by (intro unat_byte) simp
    have b: "unat (byte_of_nat (128 + c div 64 mod 64)) = 128 + c div 64 mod 64"
      by (intro unat_byte) simp
    have d: "unat (byte_of_nat (128 + c mod 64)) = 128 + c mod 64"
      by (intro unat_byte) simp
    have "utf8_decode (byte_of_nat (224 + c div 4096) # byte_of_nat (128 + c div 64 mod 64)
                        # byte_of_nat (128 + c mod 64) # rest)
          = map_option ((#) (c div 4096 * 4096 + c div 64 mod 64 * 64 + c mod 64))
              (utf8_decode rest)"
      using three by (intro utf8_decode_3 a b d) (simp_all add: split3)
    then show ?thesis by (simp add: bs split3)
  next
    case four
    then have bs: "bs = [byte_of_nat (240 + c div 262144), byte_of_nat (128 + c div 4096 mod 64),
                         byte_of_nat (128 + c div 64 mod 64), byte_of_nat (128 + c mod 64)]"
      using assms by (simp add: utf8_encode_char_def)
    have a: "unat (byte_of_nat (240 + c div 262144)) = 240 + c div 262144"
      using four by (intro unat_byte) simp
    have b: "unat (byte_of_nat (128 + c div 4096 mod 64)) = 128 + c div 4096 mod 64"
      by (intro unat_byte) simp
    have d: "unat (byte_of_nat (128 + c div 64 mod 64)) = 128 + c div 64 mod 64"
      by (intro unat_byte) simp
    have e: "unat (byte_of_nat (128 + c mod 64)) = 128 + c mod 64"
      by (intro unat_byte) simp
    have "utf8_decode (byte_of_nat (240 + c div 262144) # byte_of_nat (128 + c div 4096 mod 64)
                        # byte_of_nat (128 + c div 64 mod 64) # byte_of_nat (128 + c mod 64) # rest)
          = map_option ((#) (c div 262144 * 262144 + c div 4096 mod 64 * 4096
                             + c div 64 mod 64 * 64 + c mod 64))
              (utf8_decode rest)"
      using four by (intro utf8_decode_4 a b d e) (simp_all add: split4)
    then show ?thesis by (simp add: bs split4)
  next
    case bad
    then have "utf8_encode_char c = None"
      by (auto simp: utf8_encode_char_def is_surrogate_def)
    then show ?thesis using assms by simp
  qed
qed

lemma utf8_decode_encode_append:
  "utf8_encode s = Some bs \<Longrightarrow> utf8_decode (bs @ rest) = map_option ((@) s) (utf8_decode rest)"
proof (induction s arbitrary: bs)
  case Nil
  then show ?case by (simp add: option.map_ident)
next
  case (Cons c s)
  then obtain b1 b2 where 1: "utf8_encode_char c = Some b1" and 2: "utf8_encode s = Some b2"
    and bs: "bs = b1 @ b2"
    by (auto split: option.splits)
  show ?case
    by (simp add: bs utf8_decode_encode_char [OF 1] Cons.IH [OF 2] option.map_comp comp_def)
qed

lemma utf8_decode_encode:
  assumes "utf8_encode s = Some bs"
  shows "utf8_decode bs = Some s"
proof -
  have "utf8_decode (bs @ []) = map_option ((@) s) (utf8_decode [])"
    using assms by (rule utf8_decode_encode_append)
  then show ?thesis by simp
qed



section \<open>Bytes of an encoded string, newline translation, line input\<close>




lemma translate_on_write_posix: "translate_on_write s = s"
  by (induction s) (simp_all add: translate_on_write_def os_linesep_def)

lemma universal_newlines_no_CR: "CR \<notin> set s \<Longrightarrow> universal_newlines s = s"
  by (induction s rule: universal_newlines.induct) simp_all


lemma first_line_no_LF: "LF \<notin> set (first_line s)"
  by (auto simp: first_line_def dest: set_takeWhileD)


lemma input_py_eq:
  "input_py prompt w =
     (let w1 = (if tty w then w\<lparr>stderr := stderr w @ prompt\<rparr>
                else w\<lparr>stdout := stdout w @ prompt\<rparr>)
      in if stdin w = [] then (Inl EOFError, w1)
         else (Inr (first_line (stdin w)),
               w1\<lparr>stdin := drop (Suc (length (first_line (stdin w)))) (stdin w)\<rparr>))"
proof (cases "length (first_line (stdin w)) < length (stdin w)")
  case True
  then show ?thesis
    by (auto simp: input_py_def readline_def first_line_def Let_def)
next
  case False
  then have all: "first_line (stdin w) = stdin w"
    unfolding first_line_def
    by (metis length_takeWhile_le takeWhile_eq_take take_all_iff le_antisym not_le_imp_less)
  then have noLF: "LF \<notin> set (stdin w)" using first_line_no_LF [of "stdin w"] by simp
  have lst: "stdin w \<noteq> [] \<Longrightarrow> last (stdin w) \<noteq> LF"
    using noLF last_in_set by metis
  have tw: "takeWhile (\<lambda>c. c \<noteq> LF) (stdin w) = stdin w"
    using all by (simp add: first_line_def)
  show ?thesis
    by (simp add: input_py_def readline_def first_line_def Let_def tw lst)
qed

section \<open>What each block of the script does\<close>

lemma persist_eq:
  "persist s w =
     (if \<not> can_write w then (Inl PermissionError, w)
      else case utf8_encode s of
             None \<Rightarrow> (Inl UnicodeEncodeError, w\<lparr>files := (files w)(filename \<mapsto> truncated w)\<rparr>)
           | Some bs \<Rightarrow>
               (Inr (length s),
                w\<lparr>files := (files w)(filename \<mapsto> (truncated w)\<lparr>data := bs\<rparr>)\<rparr>))"
  by (cases "files w filename")
     (simp_all add: persist_def with_open_def open_py_def write_py_def close_py_def
        can_write_def truncated_def translate_on_write_posix Let_def split: option.splits)

lemma verify_eq:
  "verify w =
     (case files w filename of
        None \<Rightarrow> (Inl FileNotFoundError, w)
      | Some f \<Rightarrow>
          if \<not> may_read f then (Inl PermissionError, w)
          else case utf8_decode (data f) of
                 None \<Rightarrow> (Inl UnicodeDecodeError, w)
               | Some s \<Rightarrow>
                   (Inr (universal_newlines s),
                    w\<lparr>stdout := stdout w @ (0x2705 # str '' CONFIRMED. Saved Goal: ''
                                  @ universal_newlines s) @ [LF]
                                  @ mul_str (str ''-'') 30 @ [LF]\<rparr>))"
  by (simp add: verify_def with_open_def open_py_def read_py_def close_py_def bind_io_def
        return_io_def print_py_def Let_def split: option.splits)

lemma frame [simp]:
  "can_write (stdout_update f w) = can_write w"
  "can_write (stderr_update f w) = can_write w"
  "can_write (stdin_update g w) = can_write w"
  "can_read_back (stdout_update f w) = can_read_back w"
  "can_read_back (stderr_update f w) = can_read_back w"
  "can_read_back (stdin_update g w) = can_read_back w"
  "truncated (stdout_update f w) = truncated w"
  "truncated (stderr_update f w) = truncated w"
  "truncated (stdin_update g w) = truncated w"
  by (simp_all add: can_write_def can_read_back_def truncated_def split: option.splits)

lemma may_read_truncated [simp]: "may_read (truncated w) = can_read_back w"
  by (simp add: can_read_back_def truncated_def split: option.splits)

lemma truncated_empty [simp]: "(truncated w)\<lparr>data := []\<rparr> = truncated w"
  by (simp add: truncated_def split: option.splits)

lemma main_eof:
  "stdin w = [] \<Longrightarrow> main w = (Inl EOFError, greeted w)"
  by (simp add: main_def bind_io_def print_py_def input_py_eq banner_def greeted_def
        prompt_text_def)

lemma main_no_write:
  "stdin w \<noteq> [] \<Longrightarrow> \<not> can_write w \<Longrightarrow> main w = (Inl PermissionError, prompted w)"
  by (simp add: main_def bind_io_def print_py_def input_py_eq persist_eq banner_def greeted_def
        prompt_text_def Let_def
        prompted_def)

lemma main_unencodable:
  "stdin w \<noteq> [] \<Longrightarrow> can_write w \<Longrightarrow> utf8_encode (first_line (stdin w)) = None \<Longrightarrow>
   main w = (Inl UnicodeEncodeError, stored w [])"
  by (simp add: main_def bind_io_def print_py_def input_py_eq persist_eq banner_def greeted_def
        prompt_text_def Let_def
        prompted_def stored_def)

lemma main_no_read:
  "stdin w \<noteq> [] \<Longrightarrow> can_write w \<Longrightarrow> utf8_encode (first_line (stdin w)) = Some bs \<Longrightarrow>
   \<not> can_read_back w \<Longrightarrow>
   main w = (Inl PermissionError, (stored w bs)\<lparr>stdout := stdout w @ banner (tty w) @ progress\<rparr>)"
  by (simp add: main_def bind_io_def print_py_def input_py_eq persist_eq verify_eq banner_def
        greeted_def prompt_text_def Let_def
        progress_def prompted_def stored_def)

lemma main_ok:
  "stdin w \<noteq> [] \<Longrightarrow> can_write w \<Longrightarrow> utf8_encode (first_line (stdin w)) = Some bs \<Longrightarrow>
   can_read_back w \<Longrightarrow>
   main w = (Inr \<lparr>my_goal = first_line (stdin w),
                   saved_content = universal_newlines (first_line (stdin w))\<rparr>,
             (stored w bs)\<lparr>stdout := stdout w @ banner (tty w) @ progress
                                  @ report (universal_newlines (first_line (stdin w)))\<rparr>)"
  by (simp add: main_def bind_io_def print_py_def input_py_eq persist_eq verify_eq banner_def
        greeted_def prompt_text_def Let_def
        progress_def report_def prompted_def stored_def return_io_def utf8_decode_encode)

lemma main_Inr_D:
  assumes "main w = (Inr g, w')"
  shows "stdin w \<noteq> [] \<and> can_write w \<and> can_read_back w \<and>
         (\<exists>bs. utf8_encode (first_line (stdin w)) = Some bs \<and>
               g = \<lparr>my_goal = first_line (stdin w),
                     saved_content = universal_newlines (first_line (stdin w))\<rparr> \<and>
               w' = (stored w bs)\<lparr>stdout := stdout w @ banner (tty w) @ progress
                        @ report (universal_newlines (first_line (stdin w)))\<rparr>)"
proof -
  have 1: "stdin w \<noteq> []" using assms main_eof [of w] by auto
  have 2: "can_write w" using assms 1 main_no_write [of w] by auto
  obtain bs where 3: "utf8_encode (first_line (stdin w)) = Some bs"
    using assms 1 2 main_unencodable [of w] by (cases "utf8_encode (first_line (stdin w))") auto
  have 4: "can_read_back w" using assms 1 2 3 main_no_read [of w bs] by auto
  show ?thesis using assms main_ok [OF 1 2 3 4] 1 2 3 4 by simp
qed

lemma printed_append [simp]: "stdout w' = stdout w @ x \<Longrightarrow> printed w w' = x"
  by (simp add: printed_def)

lemma handles_stored [simp]: "handles (stored w bs) = handles w"
  by (simp add: stored_def prompted_def greeted_def)

lemma handles_prompted [simp]: "handles (prompted w) = handles w"
  by (simp add: prompted_def greeted_def)

lemma handles_greeted [simp]: "handles (greeted w) = handles w"
  by (simp add: greeted_def)

lemma goal_bytes_stored [simp]: "goal_bytes (stored w bs) = Some bs"
  by (simp add: goal_bytes_def stored_def)

lemma goal_bytes_stdout [simp]: "goal_bytes (stdout_update f w) = goal_bytes w"
  by (simp add: goal_bytes_def)

lemma goal_bytes_stdin [simp]: "goal_bytes (stdin_update f w) = goal_bytes w"
  by (simp add: goal_bytes_def)

lemma goal_bytes_stderr [simp]: "goal_bytes (stderr_update f w) = goal_bytes w"
  by (simp add: goal_bytes_def)


section \<open>Complete runs and concrete examples\<close>

lemma main_fresh_world:
  assumes "inp \<noteq> []" and "utf8_encode (first_line inp) = Some bs"
  shows "main (fresh_world inp)
         = (Inr \<lparr>my_goal = first_line inp, saved_content = universal_newlines (first_line inp)\<rparr>,
            (stored (fresh_world inp) bs)
              \<lparr>stdout := banner False @ progress
                           @ report (universal_newlines (first_line inp))\<rparr>)"
proof -
  have "stdin (fresh_world inp) \<noteq> []" "can_write (fresh_world inp)"
    "can_read_back (fresh_world inp)"
    "utf8_encode (first_line (stdin (fresh_world inp))) = Some bs"
    using assms by (simp_all add: fresh_world_def can_write_def can_read_back_def)
  from main_ok [OF this(1,2,4,3)] show ?thesis by (simp add: fresh_world_def)
qed

lemma main_a_CR:
  "main (fresh_world [97, 13, 10])
   = (Inr \<lparr>my_goal = [97, 13], saved_content = [97, 10]\<rparr>,
      (stored (fresh_world [97, 13, 10]) [97, 13])
        \<lparr>stdout := banner False @ progress @ report [97, 10]\<rparr>)"
proof -
  have l: "first_line [97, 13, 10] = [97, 13]"
    by (simp add: first_line_def LF_def)
  have e: "utf8_encode (first_line [97, 13, 10]) = Some [97, 13]"
    unfolding l by (simp add: utf8_encode_char_def byte_of_nat_def)
  have n: "universal_newlines [97, 13] = [97, 10]"
    by (simp add: CR_def LF_def)
  have "[97, 13, 10] \<noteq> ([] :: pystr)" by simp
  from main_fresh_world [OF this e] show ?thesis by (simp only: l n)
qed

lemma read_back_stored:
  assumes "utf8_decode bs = Some s" and "can_read_back w"
  shows "with_open filename R read_py ((stored w bs)\<lparr>stdout := out\<rparr>)
         = (Inr (universal_newlines s), (stored w bs)\<lparr>stdout := out\<rparr>)"
  using assms
  by (simp add: with_open_def open_py_def read_py_def close_py_def stored_def prompted_def
        greeted_def Let_def)

lemma encode_Ship_v2:
  "utf8_encode (str ''Ship v2'') = Some [83, 104, 105, 112, 32, 118, 50]"
  by (simp add: str_def utf8_encode_char_def byte_of_nat_def)


lemma first_line_str: "first_line (str ''Ship v2'' @ [LF]) = str ''Ship v2''"
  "first_line (str ''v3'' @ [LF]) = str ''v3''"
  by (simp_all add: first_line_def str_def LF_def)


lemma mul_str_single: "mul_str [c] n = replicate n c"
  by (induction n) (simp_all add: mul_str_def)

lemma transcript_eq:
  "banner t @ progress @ report saved
   = str ''--- 2026 CAREER LOCKER ---'' @ [LF]
     @ (if t then [] else str ''What is your ultimate goal for 2026? > '') @ [LF]
     @ str ''...Saving to disk...'' @ [LF]
     @ replicate 30 (of_char CHR ''-'') @ [LF]
     @ [0x2705] @ str '' CONFIRMED. Saved Goal: '' @ saved @ [LF]
     @ replicate 30 (of_char CHR ''-'') @ [LF]"
proof -
  have "mul_str (str ''-'') 30 = replicate 30 (of_char CHR ''-'')"
    unfolding str_def list.map by (rule mul_str_single)
  then show ?thesis by (simp add: banner_def prompt_text_def progress_def report_def)
qed

lemma main_Ship_v2:
  "main (fresh_world (str ''Ship v2'' @ [LF]))
   = (Inr \<lparr>my_goal = str ''Ship v2'', saved_content = str ''Ship v2''\<rparr>,
      snd (main (fresh_world (str ''Ship v2'' @ [LF]))))"
proof -
  have "str ''Ship v2'' @ [LF] \<noteq> []" by simp
  moreover have "utf8_encode (first_line (str ''Ship v2'' @ [LF]))
                 = Some [83, 104, 105, 112, 32, 118, 50]"
    by (simp add: first_line_str encode_Ship_v2)
  moreover have "universal_newlines (str ''Ship v2'') = str ''Ship v2''"
    by (rule universal_newlines_no_CR) (simp add: str_def CR_def)
  ultimately show ?thesis
    using main_fresh_world [of "str ''Ship v2'' @ [LF]" "[83, 104, 105, 112, 32, 118, 50]"]
    by (simp add: first_line_str)
qed




lemma stdout_greeted [simp]: "stdout (greeted w) = stdout w @ banner (tty w)"
  by (simp add: greeted_def)

lemma stderr_greeted [simp]:
  "stderr (greeted w) = stderr w @ (if tty w then prompt_text else [])"
  by (simp add: greeted_def)

lemma goal_bytes_greeted [simp]: "goal_bytes (greeted w) = goal_bytes w"
  by (simp add: greeted_def)

lemma stdout_prompted [simp]: "stdout (prompted w) = stdout w @ banner (tty w)"
  by (simp add: prompted_def)

lemma stderr_prompted [simp]:
  "stderr (prompted w) = stderr w @ (if tty w then prompt_text else [])"
  by (simp add: prompted_def)

lemma stderr_stored [simp]:
  "stderr (stored w bs) = stderr w @ (if tty w then prompt_text else [])"
  by (simp add: stored_def)

lemma can_write_stored [simp]: "can_write w \<Longrightarrow> can_write (stored w bs)"
  by (simp add: can_write_def stored_def truncated_def split: option.splits)

lemma stdout_stored [simp]: "stdout (stored w bs) = stdout w @ banner (tty w)"
  by (simp add: stored_def)

lemma goal_bytes_prompted [simp]: "goal_bytes (prompted w) = goal_bytes w"
  by (simp add: prompted_def)




lemma main_terminal_world:
  assumes "inp \<noteq> []" and "utf8_encode (first_line inp) = Some bs"
  shows "main (terminal_world inp)
         = (Inr \<lparr>my_goal = first_line inp, saved_content = universal_newlines (first_line inp)\<rparr>,
            (stored (terminal_world inp) bs)
              \<lparr>stdout := banner True @ progress
                           @ report (universal_newlines (first_line inp))\<rparr>)"
proof -
  have "stdin (terminal_world inp) \<noteq> []" "can_write (terminal_world inp)"
    "can_read_back (terminal_world inp)"
    "utf8_encode (first_line (stdin (terminal_world inp))) = Some bs"
    using assms
    by (simp_all add: terminal_world_def fresh_world_def can_write_def can_read_back_def)
  from main_ok [OF this(1,2,4,3)] show ?thesis
    by (simp add: terminal_world_def fresh_world_def)
qed

lemma newlines_Ship_v2: "universal_newlines (str ''Ship v2'') = str ''Ship v2''"
  by (rule universal_newlines_no_CR) (simp add: str_def CR_def)


lemma main_Ship_v2_terminal:
  "main (terminal_world (str ''Ship v2'' @ [LF]))
   = (Inr \<lparr>my_goal = str ''Ship v2'', saved_content = str ''Ship v2''\<rparr>,
      (stored (terminal_world (str ''Ship v2'' @ [LF])) [83, 104, 105, 112, 32, 118, 50])
        \<lparr>stdout := banner True @ progress @ report (str ''Ship v2'')\<rparr>)"
proof -
  have "str ''Ship v2'' @ [LF] \<noteq> []" by simp
  moreover have "utf8_encode (first_line (str ''Ship v2'' @ [LF]))
                 = Some [83, 104, 105, 112, 32, 118, 50]"
    by (simp add: first_line_str encode_Ship_v2)
  ultimately show ?thesis
    using main_terminal_world [of "str ''Ship v2'' @ [LF]" "[83, 104, 105, 112, 32, 118, 50]"]
    by (simp add: first_line_str newlines_Ship_v2)
qed

section \<open>Properties of the script\<close>




text \<open>
C2. The confirmation line shows what was read back from the file, not the input
  variable: after a completed run, reading \<^verbatim>\<open>my_goal.txt\<close> again returns
  \<^verbatim>\<open>saved_content\<close>, and the text printed after \<^verbatim>\<open>Saved Goal: \<close> is that same value.
  The example is the run on \<^verbatim>\<open>"a\r\n"\<close>, where the input variable holds
  \<^verbatim>\<open>"a\r"\<close> and the line printed shows \<^verbatim>\<open>"a\n"\<close>.
\<close>

theorem confirmation_shows_what_was_read_back:
  assumes "main w = (Inr g, w')"
  shows "with_open filename R read_py w' = (Inr (saved_content g), w') \<and>
         printed w w' = banner (tty w) @ progress
            @ (0x2705 # str '' CONFIRMED. Saved Goal: '' @ saved_content g) @ [LF]
            @ mul_str (str ''-'') 30 @ [LF]"
proof -
  from main_Inr_D [OF assms] obtain bs where
    crb: "can_read_back w" and enc: "utf8_encode (first_line (stdin w)) = Some bs"
    and g: "g = \<lparr>my_goal = first_line (stdin w),
                  saved_content = universal_newlines (first_line (stdin w))\<rparr>"
    and w': "w' = (stored w bs)\<lparr>stdout := stdout w @ banner (tty w) @ progress
                     @ report (universal_newlines (first_line (stdin w)))\<rparr>"
    by blast
  have dec: "utf8_decode bs = Some (first_line (stdin w))"
    using enc by (rule utf8_decode_encode)
  have "with_open filename R read_py w' = (Inr (saved_content g), w')"
    unfolding w' g using read_back_stored [OF dec crb] by simp
  moreover have "printed w w' = banner (tty w) @ progress
            @ (0x2705 # str '' CONFIRMED. Saved Goal: '' @ saved_content g) @ [LF]
            @ mul_str (str ''-'') 30 @ [LF]"
    by (rule printed_append) (simp add: w' g report_def)
  ultimately show ?thesis by simp
qed

theorem confirmation_shows_what_was_read_back_witness:
  "with_open filename R read_py (snd (main (fresh_world [97, 13, 10])))
     = (Inr [97, 10], snd (main (fresh_world [97, 13, 10]))) \<and>
   printed (fresh_world [97, 13, 10]) (snd (main (fresh_world [97, 13, 10])))
     = banner False @ progress @ (0x2705 # str '' CONFIRMED. Saved Goal: '' @ [97, 10]) @ [LF]
         @ mul_str (str ''-'') 30 @ [LF]"
proof -
  have "main (fresh_world [97, 13, 10])
        = (Inr \<lparr>my_goal = [97, 13], saved_content = [97, 10]\<rparr>,
           snd (main (fresh_world [97, 13, 10])))"
    by (simp add: main_a_CR)
  from confirmation_shows_what_was_read_back [OF this] show ?thesis
    by (simp add: fresh_world_def)
qed







text \<open>
  C5. The claim lists the prompt as part of standard output. That holds when standard
  input or standard output is not a terminal; when both are a terminal, \<^verbatim>\<open>input\<close>
  writes the prompt to standard error, and standard output lacks it. What holds: on a run
  that completes, the text added to standard output is, in order, the header line, the
  prompt unless the streams are a terminal, the progress notice, a line of 30 hyphens, the
  confirmation line with the content that was read back, and a second line of 30 hyphens;
  on a terminal the prompt is what the run adds to standard error. (The newline that ends
  the prompt's line is the one at the start of the string the script prints for the
  progress notice.) The last theorem of the group is the run at a terminal.
\<close>

theorem output_of_a_successful_run:
  assumes "main w = (Inr g, w')"
  shows "stdout w' = stdout w
     @ str ''--- 2026 CAREER LOCKER ---'' @ [LF]
     @ (if tty w then [] else str ''What is your ultimate goal for 2026? > '') @ [LF]
     @ str ''...Saving to disk...'' @ [LF]
     @ replicate 30 (of_char CHR ''-'') @ [LF]
     @ [0x2705] @ str '' CONFIRMED. Saved Goal: '' @ saved_content g @ [LF]
     @ replicate 30 (of_char CHR ''-'') @ [LF] \<and>
   stderr w' = stderr w
     @ (if tty w then str ''What is your ultimate goal for 2026? > '' else [])"
proof -
  from main_Inr_D [OF assms] obtain bs where
    "g = \<lparr>my_goal = first_line (stdin w),
          saved_content = universal_newlines (first_line (stdin w))\<rparr>"
    "w' = (stored w bs)\<lparr>stdout := stdout w @ banner (tty w) @ progress
                     @ report (universal_newlines (first_line (stdin w)))\<rparr>"
    by blast
  then have "stdout w' = stdout w @ banner (tty w) @ progress @ report (saved_content g)"
    and "stderr w' = stderr w @ (if tty w then prompt_text else [])"
    by simp_all
  then show ?thesis by (simp only: transcript_eq prompt_text_def simp_thms)
qed

theorem output_of_a_successful_run_witness:
  "stdout (snd (main (fresh_world (str ''Ship v2'' @ [LF]))))
   = str ''--- 2026 CAREER LOCKER ---'' @ [LF]
     @ str ''What is your ultimate goal for 2026? > '' @ [LF]
     @ str ''...Saving to disk...'' @ [LF]
     @ str ''------------------------------'' @ [LF]
     @ [0x2705] @ str '' CONFIRMED. Saved Goal: Ship v2'' @ [LF]
     @ str ''------------------------------'' @ [LF] \<and>
   stderr (snd (main (fresh_world (str ''Ship v2'' @ [LF])))) = []"
proof -
  have "replicate 30 (of_char CHR ''-'') = str ''------------------------------''"
    by (simp add: str_def eval_nat_numeral)
  then show ?thesis
    using output_of_a_successful_run [OF main_Ship_v2]
    by (simp add: fresh_world_def str_def)
qed

theorem output_at_a_terminal_lacks_the_prompt:
  "fst (main (terminal_world (str ''Ship v2'' @ [LF])))
     = Inr \<lparr>my_goal = str ''Ship v2'', saved_content = str ''Ship v2''\<rparr> \<and>
   stdout (snd (main (terminal_world (str ''Ship v2'' @ [LF]))))
     = str ''--- 2026 CAREER LOCKER ---'' @ [LF]
       @ [LF]
       @ str ''...Saving to disk...'' @ [LF]
       @ str ''------------------------------'' @ [LF]
       @ [0x2705] @ str '' CONFIRMED. Saved Goal: Ship v2'' @ [LF]
       @ str ''------------------------------'' @ [LF] \<and>
   stderr (snd (main (terminal_world (str ''Ship v2'' @ [LF]))))
     = str ''What is your ultimate goal for 2026? > ''"
proof -
  have "replicate 30 (of_char CHR ''-'') = str ''------------------------------''"
    by (simp add: str_def eval_nat_numeral)
  then show ?thesis
    by (simp add: main_Ship_v2_terminal transcript_eq prompt_text_def)
       (simp add: str_def terminal_world_def fresh_world_def)
qed



text \<open>
C7. When the input line is empty, the file is left with zero bytes and the confirmation
  line is \<^verbatim>\<open>"<U+2705> CONFIRMED. Saved Goal: "\<close> with nothing after the colon and the
  space.
\<close>

theorem empty_goal:
  assumes "stdin w = LF # rest" and "can_write w" and "can_read_back w"
  shows "fst (main w) = Inr \<lparr>my_goal = [], saved_content = []\<rparr> \<and>
         goal_bytes (snd (main w)) = Some [] \<and>
         printed w (snd (main w))
           = str ''--- 2026 CAREER LOCKER ---'' @ [LF]
             @ (if tty w then [] else str ''What is your ultimate goal for 2026? > '') @ [LF]
             @ str ''...Saving to disk...'' @ [LF]
             @ replicate 30 (of_char CHR ''-'') @ [LF]
             @ [0x2705] @ str '' CONFIRMED. Saved Goal: '' @ [LF]
             @ replicate 30 (of_char CHR ''-'') @ [LF]"
proof -
  have ne: "stdin w \<noteq> []" and l: "first_line (stdin w) = []"
    using assms(1) by (simp_all add: first_line_def)
  have enc: "utf8_encode (first_line (stdin w)) = Some []"
    by (simp add: l)
  have "printed w (snd (main w)) = banner (tty w) @ progress @ report []"
    by (rule printed_append) (simp add: main_ok [OF ne assms(2) enc assms(3)] l)
  then show ?thesis
    using main_ok [OF ne assms(2) enc assms(3)] by (simp add: l transcript_eq)
qed

theorem empty_goal_witness:
  "fst (main (world_with [10, 97] old_file)) = Inr \<lparr>my_goal = [], saved_content = []\<rparr> \<and>
   goal_bytes (world_with [10, 97] old_file) = Some [79, 108, 100, 32, 103, 111, 97, 108, 10] \<and>
   goal_bytes (snd (main (world_with [10, 97] old_file))) = Some [] \<and>
   printed (world_with [10, 97] old_file) (snd (main (world_with [10, 97] old_file)))
     = str ''--- 2026 CAREER LOCKER ---'' @ [LF]
       @ str ''What is your ultimate goal for 2026? > '' @ [LF]
       @ str ''...Saving to disk...'' @ [LF]
       @ replicate 30 (of_char CHR ''-'') @ [LF]
       @ [0x2705] @ str '' CONFIRMED. Saved Goal: '' @ [LF]
       @ replicate 30 (of_char CHR ''-'') @ [LF]"
proof -
  have "stdin (world_with [10, 97] old_file) = LF # [97]"
    "can_write (world_with [10, 97] old_file)" "can_read_back (world_with [10, 97] old_file)"
    by (simp_all add: world_with_def old_file_def LF_def can_write_def can_read_back_def)
  from empty_goal [OF this] show ?thesis
    by (simp add: goal_bytes_def world_with_def old_file_def)
qed







end
